theory Spec2Isabelle
  imports Complex_Main "HOL-Library.Log_Nat"
begin

section \<open>Python values used by the reward system\<close>

text \<open>
  Exceptions are values. The built-in ones are the ones the modelled code can raise itself;
  \<open>ExternalError msg\<close> stands for any exception raised inside an external call (the Solana
  RPC client, the circuit simulator, the language-model client), with its message.
  An external call's outcome is a sum: \<open>Inl msg\<close> when the call raised, \<open>Inr v\<close> when
  it returned \<open>v\<close>.
\<close>

datatype error =
    IndexError
  | KeyError
  | ValueError
  | OverflowError
  | ZeroDivisionError
  | ExternalError string

type_synonym 'a ext = "string + 'a"

subsection \<open>Strings\<close>

text \<open>
  A \<open>string\<close> is a list of 8-bit characters; a character is read as the Unicode code
  point of the same number (Latin-1), which covers the base-58 wallet addresses and the
  command words. On these code points \<open>str.isspace\<close> holds for 9..13, 28..32, 133 and 160,
  and \<open>str.lower\<close> adds 32 to the upper-case letters 65..90, 192..214 and 216..222 and
  keeps every other character.
\<close>

definition ord :: "char \<Rightarrow> nat" where
  "ord c = of_char c"

definition py_isspace :: "char \<Rightarrow> bool" where
  "py_isspace c \<longleftrightarrow> (9 \<le> ord c \<and> ord c \<le> 13) \<or> (28 \<le> ord c \<and> ord c \<le> 32) \<or> ord c = 133 \<or> ord c = 160"

definition py_isupper :: "char \<Rightarrow> bool" where
  "py_isupper c \<longleftrightarrow> (65 \<le> ord c \<and> ord c \<le> 90) \<or> (192 \<le> ord c \<and> ord c \<le> 214) \<or> (216 \<le> ord c \<and> ord c \<le> 222)"

definition lower_char :: "char \<Rightarrow> char" where
  "lower_char c = (if py_isupper c then char_of (ord c + 32) else c)"

definition lower :: "string \<Rightarrow> string" where
  "lower s = map lower_char s"

definition strip :: "string \<Rightarrow> string" where
  "strip s = rev (dropWhile py_isspace (rev (dropWhile py_isspace s)))"

definition startswith :: "string \<Rightarrow> string \<Rightarrow> bool" where
  "startswith s p \<longleftrightarrow> take (length p) s = p"

subsection \<open>\<open>int(s, 2)\<close>\<close>

text \<open>
  \<open>int(s, 2)\<close> skips leading white space, takes one optional sign, one optional prefix
  \<open>0b\<close> or \<open>0B\<close> (which one underscore may follow), then reads the longest run of binary
  digits and underscores. The run must start and end with a digit and hold no two
  underscores in a row, and only white space may follow it; anything else raises
  \<open>ValueError\<close>.
\<close>

definition bin_or_underscore :: "char \<Rightarrow> bool" where
  "bin_or_underscore c \<longleftrightarrow> c = CHR ''0'' \<or> c = CHR ''1'' \<or> c = CHR ''_''"

fun double_underscore :: "string \<Rightarrow> bool" where
  "double_underscore (a # b # r) = ((a = CHR ''_'' \<and> b = CHR ''_'') \<or> double_underscore (b # r))"
| "double_underscore _ = False"

definition bin_value :: "string \<Rightarrow> int" where
  "bin_value ds = foldl (\<lambda>a c. 2 * a + (if c = CHR ''1'' then 1 else 0)) 0 ds"

definition skip_sign :: "string \<Rightarrow> bool \<times> string" where
  "skip_sign s =
     (case s of
        [] \<Rightarrow> (False, s)
      | c # r \<Rightarrow> if c = CHR ''+'' then (False, r) else if c = CHR ''-'' then (True, r) else (False, s))"

definition skip_prefix :: "string \<Rightarrow> string" where
  "skip_prefix s =
     (case s of
        a # b # r \<Rightarrow>
          if a = CHR ''0'' \<and> (b = CHR ''b'' \<or> b = CHR ''B'')
          then (case r of [] \<Rightarrow> r | u # r' \<Rightarrow> if u = CHR ''_'' then r' else r)
          else s
      | _ \<Rightarrow> s)"

definition int_base2 :: "string \<Rightarrow> error + int" where
  "int_base2 s =
     (let (negative, s2) = skip_sign (dropWhile py_isspace s);
          s3 = skip_prefix s2;
          body = takeWhile bin_or_underscore s3;
          rest = dropWhile bin_or_underscore s3
      in if body = [] \<or> hd body = CHR ''_'' \<or> last body = CHR ''_'' \<or> double_underscore body
            \<or> \<not> list_all py_isspace rest
         then Inl ValueError
         else Inr ((if negative then - 1 else 1) * bin_value (filter (\<lambda>c. c \<noteq> CHR ''_'') body)))"

subsection \<open>Floats\<close>

text \<open>
  A Python float is an IEEE 754 binary64 number. A finite one is modelled by the real
  number it denotes, and every float operation is the exact operation followed by
  \<open>round_binary64\<close>: rounding to the nearest number with a 53-bit significand, ties to the
  even significand, with the fixed spacing \<open>2 ^ - 1074\<close> below \<open>2 ^ - 1022\<close>.
  \<open>ilog2 x\<close> is the exponent of the binade of a positive \<open>x\<close>.

  Infinities and NaN never arise in the modelled code: the only operation that could
  leave the finite range is the true division of two integers, where Python raises
  \<open>OverflowError\<close> instead.
\<close>

type_synonym pyfloat = real

definition pow2 :: "int \<Rightarrow> real" where
  "pow2 e = (if 0 \<le> e then 2 ^ nat e else 1 / 2 ^ nat (- e))"

definition ilog2 :: "real \<Rightarrow> int" where
  "ilog2 x = (if 1 \<le> x then bitlen \<lfloor>x\<rfloor> - 1 else - bitlen (\<lceil>1 / x\<rceil> - 1))"

definition round_half_even :: "real \<Rightarrow> int" where
  "round_half_even m =
     (let f = \<lfloor>m\<rfloor>; d = m - of_int f
      in if d < 1 / 2 then f else if 1 / 2 < d then f + 1 else if even f then f else f + 1)"

definition round_binary64 :: "real \<Rightarrow> pyfloat" where
  "round_binary64 x =
     (if x = 0 then 0
      else let e = max (ilog2 \<bar>x\<bar>) (- 1022); u = pow2 (e - 52)
           in of_int (round_half_even (x / u)) * u)"

definition fadd :: "pyfloat \<Rightarrow> pyfloat \<Rightarrow> pyfloat" where
  "fadd a b = round_binary64 (a + b)"

definition fmul :: "pyfloat \<Rightarrow> pyfloat \<Rightarrow> pyfloat" where
  "fmul a b = round_binary64 (a * b)"

text \<open>\<open>a / b\<close> on two Python integers: the correctly rounded quotient, or an exception.\<close>

definition int_truediv :: "int \<Rightarrow> int \<Rightarrow> error + pyfloat" where
  "int_truediv a b =
     (if b = 0 then Inl ZeroDivisionError
      else let q = round_binary64 (of_int a / of_int b)
           in if 2 ^ 1024 \<le> \<bar>q\<bar> then Inl OverflowError else Inr q)"

section \<open>quantum\_ai\_utils.py\<close>

text \<open>
  The simulator's answer \<open>result.get_counts(qc)\<close> is a dictionary from measured bit
  strings to the number of shots that gave them, kept here in insertion order.
\<close>

type_synonym counts = "(string \<times> int) list"

definition counts_get :: "counts \<Rightarrow> string \<Rightarrow> int \<Rightarrow> int" where
  "counts_get counts k d = (case map_of counts k of None \<Rightarrow> d | Some v \<Rightarrow> v)"

subsection \<open>\<open>generate_quantum_seed\<close>\<close>

text \<open>
  The circuit built from the address: one gate on qubit \<open>i\<close> for each of the first four
  characters, a Hadamard gate when the character's code point is even and a NOT gate
  otherwise, then the chain of controlled NOTs.
\<close>

datatype gate = H nat | X nat | CX nat nat

definition seed_circuit :: "string \<Rightarrow> gate list" where
  "seed_circuit wallet_address =
     map (\<lambda>(i, char). if ord char mod 2 = 0 then H i else X i) (enumerate 0 (take 4 wallet_address))
     @ [CX 0 1, CX 1 2, CX 2 3]"

text \<open>
  \<open>run\<close> is the outcome of executing \<open>seed_circuit wallet_address\<close> with one shot and
  asking for the counts. The seed is the first key of the counts read in base 2.
\<close>

definition generate_quantum_seed :: "string \<Rightarrow> counts ext \<Rightarrow> error + int" where
  "generate_quantum_seed wallet_address run =
     (case run of
        Inl msg \<Rightarrow> Inl (ExternalError msg)
      | Inr counts \<Rightarrow>
          (case map fst counts of
             [] \<Rightarrow> Inl IndexError
           | binary_result # _ \<Rightarrow> int_base2 binary_result))"

text \<open>
  The measurement outcomes the circuit can give. Every qubit starts as 0 and a Hadamard
  gate is only ever the first gate on its qubit, so measuring gives either bit for that
  qubit; a NOT gate flips its qubit and a controlled NOT flips the target when the control
  is 1. The key of an outcome shows qubit 3 first and qubit 0 last.
\<close>

fun apply_gate :: "gate \<Rightarrow> bool list \<Rightarrow> bool list list" where
  "apply_gate (H i) q = [q[i := False], q[i := True]]"
| "apply_gate (X i) q = [q[i := \<not> q ! i]]"
| "apply_gate (CX c t) q = [if q ! c then q[t := \<not> q ! t] else q]"

definition run_circuit :: "gate list \<Rightarrow> bool list list" where
  "run_circuit gates = foldl (\<lambda>qs g. concat (map (apply_gate g) qs)) [[False, False, False, False]] gates"

definition key_of :: "bool list \<Rightarrow> string" where
  "key_of q = map (\<lambda>b. if b then CHR ''1'' else CHR ''0'') (rev q)"

definition seed_runs :: "string \<Rightarrow> counts list" where
  "seed_runs wallet_address = map (\<lambda>q. [(key_of q, 1)]) (run_circuit (seed_circuit wallet_address))"

text \<open>No Hadamard gate is applied: none of the first four characters has an even code point.\<close>

definition no_hadamard :: "string \<Rightarrow> bool" where
  "no_hadamard wallet_address \<longleftrightarrow> list_all (\<lambda>char. ord char mod 2 \<noteq> 0) (take 4 wallet_address)"

text \<open>A one-shot answer over four classical bits: one key of four binary digits.\<close>

definition is_bits :: "nat \<Rightarrow> string \<Rightarrow> bool" where
  "is_bits n key \<longleftrightarrow> length key = n \<and> list_all (\<lambda>c. c = CHR ''0'' \<or> c = CHR ''1'') key"

definition single_shot :: "counts \<Rightarrow> bool" where
  "single_shot counts \<longleftrightarrow>
     (case counts of [] \<Rightarrow> False | (key, n) # more \<Rightarrow> more = [] \<and> n = 1 \<and> is_bits 4 key)"

subsection \<open>\<open>quantum_boost_multiplier\<close>\<close>

text \<open>
  \<open>run\<close> is the outcome of executing, with 100 shots, the three-qubit circuit whose
  rotation angles are \<open>pi * (holding_days % 365) / 365\<close> and \<open>pi * (quantum_seed % 16) / 16\<close>.
  The two arguments reach the result only through that answer.
\<close>

definition quantum_boost_multiplier :: "int \<Rightarrow> int \<Rightarrow> counts ext \<Rightarrow> error + pyfloat" where
  "quantum_boost_multiplier holding_days quantum_seed run =
     (case run of
        Inl msg \<Rightarrow> Inl (ExternalError msg)
      | Inr counts \<Rightarrow>
          (case int_truediv (counts_get counts ''1'' 0) 100 of
             Inl e \<Rightarrow> Inl e
           | Inr prob_one \<Rightarrow> Inr (fadd 1 (fmul (1 / 2) prob_one))))"

text \<open>A 100-shot answer: the number of shots that measured 1 is between 0 and 100.\<close>

definition hundred_shots :: "counts \<Rightarrow> bool" where
  "hundred_shots counts \<longleftrightarrow> 0 \<le> counts_get counts ''1'' 0 \<and> counts_get counts ''1'' 0 \<le> 100"

section \<open>daio\_reward\_system.py\<close>

subsection \<open>\<open>calculate_rewards\<close>\<close>

text \<open>The tier and the base multiplier: the chain of comparisons, first match first.\<close>

definition classify_tier :: "int \<Rightarrow> string \<times> pyfloat" where
  "classify_tier holding_duration_days =
     (if 365 \<le> holding_duration_days then (''Diamond'', 2)
      else if 180 \<le> holding_duration_days then (''Gold'', 3 / 2)
      else if 90 \<le> holding_duration_days then (''Silver'', 5 / 4)
      else (''Bronze'', 1))"

record reward =
  tier :: string
  base_multiplier :: pyfloat
  quantum_boost :: pyfloat
  final_multiplier :: pyfloat
  holding_days :: int
  quantum_seed :: int

text \<open>
  \<open>seed_run\<close> and \<open>boost_run\<close> are the outcomes of the two simulator runs the call makes,
  in the order it makes them.
\<close>

definition calculate_rewards :: "int \<Rightarrow> string \<Rightarrow> counts ext \<Rightarrow> counts ext \<Rightarrow> error + reward" where
  "calculate_rewards holding_duration_days wallet_address seed_run boost_run =
     (case generate_quantum_seed wallet_address seed_run of
        Inl e \<Rightarrow> Inl e
      | Inr seed \<Rightarrow>
          (case classify_tier holding_duration_days of
             (tier_name, base) \<Rightarrow>
               (case quantum_boost_multiplier holding_duration_days seed boost_run of
                  Inl e \<Rightarrow> Inl e
                | Inr boost \<Rightarrow>
                    Inr \<lparr>tier = tier_name, base_multiplier = base, quantum_boost = boost,
                         final_multiplier = fmul base boost,
                         holding_days = holding_duration_days, quantum_seed = seed\<rparr>)))"

subsection \<open>\<open>get_token_holding_duration\<close>\<close>

record holding =
  token_account :: string
  mint_address :: string
  holding_duration_days :: int
  acquisition_date :: string

text \<open>
  The dictionary the lookup returns has either the key \<open>error\<close> or the keys
  \<open>wallet_address\<close> and \<open>holdings\<close>.
\<close>

datatype holding_info = ErrorInfo string | WalletInfo string "holding list"

text \<open>
  The whole body of the lookup is one \<open>try\<close> block. \<open>body\<close> is what the block did for
  the wallet: \<open>Inl msg\<close> when an RPC call, or the handling of its answer, raised an
  exception with message \<open>msg\<close>, and \<open>Inr d\<close> when the block returned the dictionary \<open>d\<close>.
  The handler turns every exception into an error dictionary.
\<close>

definition get_token_holding_duration :: "holding_info ext \<Rightarrow> holding_info" where
  "get_token_holding_duration body =
     (case body of
        Inl msg \<Rightarrow> ErrorInfo (''Error checking token holding duration: '' @ msg)
      | Inr d \<Rightarrow> d)"

subsection \<open>\<open>analyze_holding_pattern\<close>\<close>

datatype pyvalue = Str string | Float pyfloat

type_synonym pydict = "(string \<times> pyvalue) list"

definition dict_get :: "pydict \<Rightarrow> string \<Rightarrow> error + pyvalue" where
  "dict_get d k = (case map_of d k of None \<Rightarrow> Inl KeyError | Some v \<Rightarrow> Inr v)"

text \<open>
  \<open>message_run\<close> is the outcome of the request to the language model (the content of its
  message) and \<open>seed_run\<close> that of the simulator run for the confidence value.
\<close>

definition analyze_holding_pattern :: "holding_info \<Rightarrow> string ext \<Rightarrow> counts ext \<Rightarrow> error + pydict" where
  "analyze_holding_pattern wallet_data message_run seed_run =
     (case wallet_data of
        ErrorInfo _ \<Rightarrow> Inr [(''analysis'', Str ''No holdings found to analyze.'')]
      | WalletInfo wallet_address holdings \<Rightarrow>
          if holdings = [] then Inr [(''analysis'', Str ''No holdings found to analyze.'')]
          else
            (case message_run of
               Inl msg \<Rightarrow> Inl (ExternalError msg)
             | Inr content \<Rightarrow>
                 (case generate_quantum_seed wallet_address seed_run of
                    Inl e \<Rightarrow> Inl e
                  | Inr seed \<Rightarrow>
                      (case int_truediv (seed mod 100) 100 of
                         Inl e \<Rightarrow> Inl e
                       | Inr confidence \<Rightarrow>
                           Inr [(''analysis'', Str content), (''quantum_confidence'', Float confidence)]))))"

subsection \<open>\<open>check_all_wallets\<close>\<close>

text \<open>
  What the program prints, one constructor for each \<open>print\<close> statement or group of
  consecutive ones; the formatting of the values is left out.
\<close>

datatype out =
    RunningCheck
  | NoWalletsTracked
  | CheckingWallet string
  | ErrorLine string
  | NoTokensFound
  | AIAnalysis pyvalue
  | AnalysisConfidence pyvalue
  | HoldingLines holding
  | RewardLines reward
  | NowTracking string
  | StoppedTracking string
  | TrackedWallets "string set"
  | InvalidCommand

text \<open>
  The external world of one batch run: for each wallet the outcome of the lookup's body
  and of the language-model request, and the outcome of each simulator run, told apart by
  the wallet and the position of the holding they are made for.
\<close>

record world =
  rpc :: "string \<Rightarrow> holding_info ext"
  llm :: "string \<Rightarrow> string ext"
  analysis_sim :: "string \<Rightarrow> counts ext"
  seed_sim :: "string \<Rightarrow> nat \<Rightarrow> counts ext"
  boost_sim :: "string \<Rightarrow> nat \<Rightarrow> counts ext"

text \<open>
  Each function returns what was printed and, when an exception left it, the exception.
  \<open>check_holdings\<close> is the inner loop over the holdings of a wallet, \<open>check_wallet\<close> the
  body of the outer loop, \<open>check_wallets\<close> the outer loop over the tracked wallets in the
  order \<open>ws\<close> in which the set yields them.
\<close>

fun check_holdings :: "world \<Rightarrow> string \<Rightarrow> nat \<Rightarrow> holding list \<Rightarrow> out list \<times> error option" where
  "check_holdings w wallet i [] = ([], None)"
| "check_holdings w wallet i (h # hs) =
     (case calculate_rewards (holding_duration_days h) wallet (seed_sim w wallet i) (boost_sim w wallet i) of
        Inl e \<Rightarrow> ([HoldingLines h], Some e)
      | Inr rewards \<Rightarrow>
          (case check_holdings w wallet (Suc i) hs of
             (printed, raised) \<Rightarrow> (HoldingLines h # RewardLines rewards # printed, raised)))"

definition check_wallet :: "world \<Rightarrow> string \<Rightarrow> out list \<times> error option" where
  "check_wallet w wallet =
     (case get_token_holding_duration (rpc w wallet) of
        ErrorInfo msg \<Rightarrow> ([CheckingWallet wallet, ErrorLine msg], None)
      | WalletInfo a holdings \<Rightarrow>
          if holdings = [] then ([CheckingWallet wallet, NoTokensFound], None)
          else
            (case analyze_holding_pattern (WalletInfo a holdings) (llm w wallet) (analysis_sim w wallet) of
               Inl e \<Rightarrow> ([CheckingWallet wallet], Some e)
             | Inr ai_analysis \<Rightarrow>
                 (case dict_get ai_analysis ''analysis'' of
                    Inl e \<Rightarrow> ([CheckingWallet wallet], Some e)
                  | Inr a \<Rightarrow>
                      (case dict_get ai_analysis ''quantum_confidence'' of
                         Inl e \<Rightarrow> ([CheckingWallet wallet, AIAnalysis a], Some e)
                       | Inr c \<Rightarrow>
                           (case check_holdings w wallet 0 holdings of
                              (printed, raised) \<Rightarrow>
                                (CheckingWallet wallet # AIAnalysis a # AnalysisConfidence c # printed,
                                 raised))))))"

fun check_wallets :: "world \<Rightarrow> string list \<Rightarrow> out list \<times> error option" where
  "check_wallets w [] = ([], None)"
| "check_wallets w (wallet # ws) =
     (case check_wallet w wallet of
        (printed, Some e) \<Rightarrow> (printed, Some e)
      | (printed, None) \<Rightarrow>
          (case check_wallets w ws of (printed', raised) \<Rightarrow> (printed @ printed', raised)))"

definition check_all_wallets :: "world \<Rightarrow> string list \<Rightarrow> out list \<times> error option" where
  "check_all_wallets w ws =
     (if ws = [] then ([RunningCheck, NoWalletsTracked], None)
      else (case check_wallets w ws of (printed, raised) \<Rightarrow> (RunningCheck # printed, raised)))"

subsection \<open>The tracked wallets and the command loop\<close>

record reward_system =
  wallets_to_track :: "string set"
  stdout :: "out list"

definition add_wallet_to_track :: "string \<Rightarrow> reward_system \<Rightarrow> reward_system" where
  "add_wallet_to_track wallet_address s =
     s\<lparr>wallets_to_track := insert wallet_address (wallets_to_track s),
       stdout := stdout s @ [NowTracking wallet_address]\<rparr>"

definition remove_wallet_to_track :: "string \<Rightarrow> reward_system \<Rightarrow> reward_system" where
  "remove_wallet_to_track wallet_address s =
     s\<lparr>wallets_to_track := wallets_to_track s - {wallet_address},
       stdout := stdout s @ [StoppedTracking wallet_address]\<rparr>"

text \<open>
  Iterating over a Python set yields each of its elements once, in some order: \<open>xs\<close> is
  such a sequence for the set \<open>S\<close>.
\<close>

definition listing :: "string set \<Rightarrow> string list \<Rightarrow> bool" where
  "listing S xs \<longleftrightarrow> set xs = S \<and> distinct xs"

text \<open>
  One round of the loop in \<open>main\<close> on the line that \<open>input\<close> returned. The command
  \<open>check\<close> calls the coroutine function without awaiting it, which runs none of its body.
\<close>

datatype control = Continue | Break

definition main_step :: "string \<Rightarrow> reward_system \<Rightarrow> control \<times> reward_system" where
  "main_step line s =
     (let command = lower (strip line)
      in if command = ''exit'' then (Break, s)
         else if startswith command ''add '' then
           (Continue, add_wallet_to_track (strip (drop 4 command)) s)
         else if startswith command ''remove '' then
           (Continue, remove_wallet_to_track (strip (drop 7 command)) s)
         else if command = ''list'' then
           (Continue, s\<lparr>stdout := stdout s @ [TrackedWallets (wallets_to_track s)]\<rparr>)
         else if command = ''check'' then (Continue, s)
         else (Continue, s\<lparr>stdout := stdout s @ [InvalidCommand]\<rparr>))"

subsection \<open>A batch run with failing services\<close>

text \<open>
  A world for one batch run over three wallets: the lookup of \<open>w1\<close> times out, the
  lookups of the others return one holding of 400 days, and the request to the language
  model fails for \<open>w2\<close>.
\<close>

definition sample_holding :: holding where
  "sample_holding =
     \<lparr>token_account = ''account'', mint_address = ''mint'', holding_duration_days = 400,
      acquisition_date = ''2023-11-30T09:00:00''\<rparr>"

definition outage :: world where
  "outage =
     \<lparr>rpc = (\<lambda>wallet. if wallet = ''w1'' then Inl ''timeout''
                        else Inr (WalletInfo wallet [sample_holding])),
      llm = (\<lambda>wallet. if wallet = ''w2'' then Inl ''overloaded'' else Inr ''loyal holder''),
      analysis_sim = (\<lambda>wallet. Inr [(''0101'', 1)]),
      seed_sim = (\<lambda>wallet i. Inr [(''0111'', 1)]),
      boost_sim = (\<lambda>wallet i. Inr [(''0'', 63), (''1'', 37)])\<rparr>"

section \<open>Facts about the float model\<close>

text \<open>Powers of two, the binade of a positive number, and the rounding of a number that lies
  between two neighbours of the grid.\<close>

lemma pow2_powi: "pow2 e = 2 powi e"
  by (simp add: pow2_def power_int_def inverse_eq_divide power_one_over)

lemma pow2_pos: "0 < pow2 e"
  by (simp add: pow2_powi)

lemma pow2_add: "pow2 (a + b) = pow2 a * pow2 b"
  by (simp add: pow2_powi power_int_add)

lemma pow2_mono: "a \<le> b \<Longrightarrow> pow2 a \<le> pow2 b"
  by (simp add: pow2_powi power_int_increasing)

lemma pow2_strict_mono: "a < b \<Longrightarrow> pow2 a < pow2 b"
  by (simp add: pow2_powi power_int_strict_increasing)

lemma ilog2_bounds:
  assumes "0 < x"
  shows "pow2 (ilog2 x) \<le> x \<and> x < pow2 (ilog2 x + 1)"
proof (cases "1 \<le> x")
  case True
  define n where "n = \<lfloor>x\<rfloor>"
  have n: "0 < n" using True by (simp add: n_def)
  have e: "ilog2 x = bitlen n - 1" using True by (simp add: ilog2_def n_def)
  have b1: "1 \<le> bitlen n" using n by (simp add: bitlen_alt_def)
  from bitlen_bounds [OF n] have lo: "2 ^ nat (bitlen n - 1) \<le> n" and hi: "n < 2 ^ nat (bitlen n)"
    by auto
  have "pow2 (bitlen n - 1) = of_int (2 ^ nat (bitlen n - 1))"
    using b1 by (simp add: pow2_def)
  also have "\<dots> \<le> of_int n" using lo by (simp only: of_int_le_iff)
  also have "\<dots> \<le> x" by (simp add: n_def)
  finally have 1: "pow2 (ilog2 x) \<le> x" by (simp add: e)
  have "n + 1 \<le> 2 ^ nat (bitlen n)" using hi by simp
  then have "(of_int (n + 1) :: real) \<le> of_int (2 ^ nat (bitlen n))" by (simp only: of_int_le_iff)
  moreover have "x < of_int (n + 1)" by (simp add: n_def)
  moreover have "pow2 (bitlen n - 1 + 1) = of_int (2 ^ nat (bitlen n))"
    using b1 by (simp add: pow2_def)
  ultimately have "x < pow2 (ilog2 x + 1)" by (simp add: e)
  with 1 show ?thesis by simp
next
  case False
  define y where "y = 1 / x"
  define m where "m = \<lceil>y\<rceil> - 1"
  have y1: "1 < y" using False assms by (simp add: y_def)
  have m: "0 < m" using y1 by (simp add: m_def less_ceiling_iff)
  have my: "of_int m < y" "y \<le> of_int m + 1"
    by (simp_all add: m_def) linarith+
  have e: "ilog2 x = - bitlen m" using False by (simp add: ilog2_def m_def y_def)
  have b1: "1 \<le> bitlen m" using m by (simp add: bitlen_alt_def)
  from bitlen_bounds [OF m] have lo: "2 ^ nat (bitlen m - 1) \<le> m" and hi: "m < 2 ^ nat (bitlen m)"
    by auto
  have "m + 1 \<le> 2 ^ nat (bitlen m)" using hi by simp
  then have "(of_int (m + 1) :: real) \<le> of_int (2 ^ nat (bitlen m))" by (simp only: of_int_le_iff)
  then have "y \<le> 2 ^ nat (bitlen m)" using my by simp
  then have "1 / 2 ^ nat (bitlen m) \<le> x"
    using assms by (simp add: y_def field_simps)
  then have 1: "pow2 (ilog2 x) \<le> x" using b1 by (simp add: e pow2_def)
  have "(of_int (2 ^ nat (bitlen m - 1)) :: real) \<le> of_int m" using lo by (simp only: of_int_le_iff)
  then have "2 ^ nat (bitlen m - 1) \<le> (of_int m :: real)" by simp
  then have "2 ^ nat (bitlen m - 1) < y" using my by linarith
  then have "x < 1 / 2 ^ nat (bitlen m - 1)"
    using assms by (simp add: y_def field_simps)
  moreover have "pow2 (- bitlen m + 1) = 1 / 2 ^ nat (bitlen m - 1)"
    using b1 by (cases "bitlen m = 1") (simp_all add: pow2_def)
  ultimately have "x < pow2 (ilog2 x + 1)" by (simp add: e)
  with 1 show ?thesis by simp
qed

lemma ilog2_unique:
  assumes "pow2 e \<le> x" "x < pow2 (e + 1)"
  shows "ilog2 x = e"
proof -
  have x: "0 < x" using assms(1) pow2_pos [of e] by linarith
  from ilog2_bounds [OF x] have l: "pow2 (ilog2 x) \<le> x" and u: "x < pow2 (ilog2 x + 1)" by auto
  have "\<not> ilog2 x + 1 \<le> e"
  proof
    assume "ilog2 x + 1 \<le> e"
    then have "pow2 (ilog2 x + 1) \<le> pow2 e" by (rule pow2_mono)
    with u assms(1) show False by linarith
  qed
  moreover have "\<not> e + 1 \<le> ilog2 x"
  proof
    assume "e + 1 \<le> ilog2 x"
    then have "pow2 (e + 1) \<le> pow2 (ilog2 x)" by (rule pow2_mono)
    with l assms(2) show False by linarith
  qed
  ultimately show ?thesis by linarith
qed

lemma round_half_even_ge: "of_int a \<le> m \<Longrightarrow> a \<le> round_half_even m"
proof -
  assume "of_int a \<le> m"
  then have "a \<le> \<lfloor>m\<rfloor>" by (simp add: le_floor_iff)
  then show ?thesis by (simp add: round_half_even_def Let_def)
qed

lemma round_half_even_le: "m \<le> of_int b \<Longrightarrow> round_half_even m \<le> b"
proof -
  assume h: "m \<le> of_int b"
  have f: "\<lfloor>m\<rfloor> \<le> b" using h by (simp add: floor_le_iff)
  show ?thesis
  proof (cases "\<lfloor>m\<rfloor> = b")
    case True
    then have "m - of_int \<lfloor>m\<rfloor> \<le> 0" using h by simp
    then show ?thesis using True by (simp add: round_half_even_def Let_def)
  next
    case False
    then have "\<lfloor>m\<rfloor> + 1 \<le> b" using f by simp
    then show ?thesis using f by (auto simp: round_half_even_def Let_def)
  qed
qed

lemma round_binary64_binade:
  assumes "pow2 e \<le> x" "x < pow2 (e + 1)" "- 1022 \<le> e"
  shows "round_binary64 x = of_int (round_half_even (x / pow2 (e - 52))) * pow2 (e - 52)"
proof -
  have x: "0 < x" using assms(1) pow2_pos [of e] by linarith
  have "ilog2 \<bar>x\<bar> = e" using x assms by (simp add: ilog2_unique)
  then show ?thesis using x assms(3) by (simp add: round_binary64_def Let_def max_def)
qed

lemma round_binary64_between:
  assumes "pow2 e \<le> x" "x < pow2 (e + 1)" "- 1022 \<le> e"
    and "of_int a * pow2 (e - 52) \<le> x" "x \<le> of_int b * pow2 (e - 52)"
  shows "of_int a * pow2 (e - 52) \<le> round_binary64 x \<and> round_binary64 x \<le> of_int b * pow2 (e - 52)"
proof -
  let ?u = "pow2 (e - 52)"
  have u: "0 < ?u" by (rule pow2_pos)
  have "of_int a \<le> x / ?u" using assms(4) u by (simp add: pos_le_divide_eq)
  then have 1: "a \<le> round_half_even (x / ?u)" by (rule round_half_even_ge)
  have "x / ?u \<le> of_int b" using assms(5) u by (simp add: pos_divide_le_eq)
  then have 2: "round_half_even (x / ?u) \<le> b" by (rule round_half_even_le)
  have "of_int a * ?u \<le> of_int (round_half_even (x / ?u)) * ?u"
    using 1 u by (simp add: mult_right_mono)
  moreover have "of_int (round_half_even (x / ?u)) * ?u \<le> of_int b * ?u"
    using 2 u by (simp add: mult_right_mono)
  ultimately show ?thesis by (simp add: round_binary64_binade [OF assms(1-3)])
qed

lemma round_binary64_nonneg:
  assumes "0 \<le> x"
  shows "0 \<le> round_binary64 x"
proof (cases "x = 0")
  case True
  then show ?thesis by (simp add: round_binary64_def)
next
  case False
  let ?u = "pow2 (max (ilog2 \<bar>x\<bar>) (- 1022) - 52)"
  have u: "0 < ?u" by (rule pow2_pos)
  have "of_int 0 \<le> x / ?u" using assms u by simp
  then have "0 \<le> round_half_even (x / ?u)" by (rule round_half_even_ge)
  then have "0 \<le> of_int (round_half_even (x / ?u)) * ?u" using u by simp
  then show ?thesis using False by (simp add: round_binary64_def Let_def)
qed

lemma round_binary64_le_pow2:
  assumes "0 \<le> x" "x \<le> pow2 k" "- 1022 \<le> k"
  shows "round_binary64 x \<le> pow2 k"
proof (cases "x = 0")
  case True
  then show ?thesis using pow2_pos [of k] by (simp add: round_binary64_def)
next
  case False
  then have x: "0 < x" using assms(1) by simp
  define e where "e = max (ilog2 \<bar>x\<bar>) (- 1022)"
  let ?u = "pow2 (e - 52)"
  have u: "0 < ?u" by (rule pow2_pos)
  have "\<not> k < ilog2 x"
  proof
    assume "k < ilog2 x"
    then have "pow2 k < pow2 (ilog2 x)" by (rule pow2_strict_mono)
    with ilog2_bounds [OF x] assms(2) show False by linarith
  qed
  then have ek: "e \<le> k" using x assms(3) by (simp add: e_def)
  have "pow2 k = pow2 ((k - e + 52) + (e - 52))" by simp
  also have "\<dots> = pow2 (k - e + 52) * ?u" by (rule pow2_add)
  also have "pow2 (k - e + 52) = of_int (2 ^ nat (k - e + 52))" using ek by (simp add: pow2_def)
  finally have k: "pow2 k = of_int (2 ^ nat (k - e + 52)) * ?u" .
  have "x / ?u \<le> of_int (2 ^ nat (k - e + 52))"
    using assms(2) u unfolding k by (simp add: pos_divide_le_eq)
  then have "round_half_even (x / ?u) \<le> 2 ^ nat (k - e + 52)" by (rule round_half_even_le)
  then have "(of_int (round_half_even (x / ?u)) :: real) \<le> of_int (2 ^ nat (k - e + 52))"
    by (simp only: of_int_le_iff)
  then have "of_int (round_half_even (x / ?u)) * ?u \<le> of_int (2 ^ nat (k - e + 52)) * ?u"
    using u by (simp only: mult_right_mono less_imp_le)
  then show ?thesis using False unfolding k by (simp add: round_binary64_def Let_def e_def)
qed

lemma round_binary64_unit:
  assumes "0 \<le> x" "x \<le> 1"
  shows "0 \<le> round_binary64 x \<and> round_binary64 x \<le> 1"
  using round_binary64_nonneg [OF assms(1)] round_binary64_le_pow2 [of x 0] assms
  by (simp add: pow2_def)

lemma round_binary64_half:
  assumes "0 \<le> x" "x \<le> 1 / 2"
  shows "0 \<le> round_binary64 x \<and> round_binary64 x \<le> 1 / 2"
  using round_binary64_nonneg [OF assms(1)] round_binary64_le_pow2 [of x "- 1"] assms
  by (simp add: pow2_def)

lemma round_binary64_1_to_3_halves:
  assumes "1 \<le> x" "x \<le> 3 / 2"
  shows "1 \<le> round_binary64 x \<and> round_binary64 x \<le> 3 / 2"
  using round_binary64_between [of 0 x "2 ^ 52" "3 * 2 ^ 51"] assms
  by (simp add: pow2_def)

lemma round_binary64_2_to_3:
  assumes "2 \<le> x" "x \<le> 3"
  shows "2 \<le> round_binary64 x \<and> round_binary64 x \<le> 3"
  using round_binary64_between [of 1 x "2 ^ 52" "3 * 2 ^ 51"] assms
  by (simp add: pow2_def)


section \<open>Ranges of the simulator-based values\<close>

lemma int_truediv_100_unit:
  assumes "0 \<le> c" "c \<le> 100"
  shows "\<exists>p. int_truediv c 100 = Inr p \<and> 0 \<le> p \<and> p \<le> 1"
proof -
  have "0 \<le> real_of_int c / 100" "real_of_int c / 100 \<le> 1" using assms by simp_all
  then have q: "0 \<le> round_binary64 (real_of_int c / 100) \<and> round_binary64 (real_of_int c / 100) \<le> 1"
    by (rule round_binary64_unit)
  have "(1::real) < 2 ^ 1024" by simp
  with q have "\<not> 2 ^ 1024 \<le> \<bar>round_binary64 (real_of_int c / 100)\<bar>" by linarith
  with q show ?thesis by (simp add: int_truediv_def Let_def)
qed

lemma boost_in_range:
  assumes "hundred_shots counts"
  shows "\<exists>b. quantum_boost_multiplier d s (Inr counts) = Inr b \<and> 1 \<le> b \<and> b \<le> 3 / 2"
proof -
  from assms obtain p where p: "int_truediv (counts_get counts ''1'' 0) 100 = Inr p" "0 \<le> p" "p \<le> 1"
    using int_truediv_100_unit unfolding hundred_shots_def by blast
  have "0 \<le> 1 / 2 * p" "1 / 2 * p \<le> 1 / 2" using p by simp_all
  then have h: "0 \<le> fmul (1 / 2) p \<and> fmul (1 / 2) p \<le> 1 / 2"
    unfolding fmul_def by (rule round_binary64_half)
  then have "1 \<le> 1 + fmul (1 / 2) p" "1 + fmul (1 / 2) p \<le> 3 / 2" by simp_all
  then have "1 \<le> fadd 1 (fmul (1 / 2) p) \<and> fadd 1 (fmul (1 / 2) p) \<le> 3 / 2"
    unfolding fadd_def by (rule round_binary64_1_to_3_halves)
  then show ?thesis using p(1) by (simp add: quantum_boost_multiplier_def)
qed

lemma int_base2_bits4:
  assumes "is_bits 4 key"
  shows "\<exists>n. int_base2 key = Inr n \<and> 0 \<le> n \<and> n \<le> 15"
proof -
  from assms obtain a b c d where k: "key = [a, b, c, d]"
    by (auto simp: is_bits_def numeral_eq_Suc length_Suc_conv)
  from assms have "a = CHR ''0'' \<or> a = CHR ''1''" "b = CHR ''0'' \<or> b = CHR ''1''"
    "c = CHR ''0'' \<or> c = CHR ''1''" "d = CHR ''0'' \<or> d = CHR ''1''"
    by (simp_all add: is_bits_def k)
  then show ?thesis unfolding k
    by (elim disjE) (simp_all add: int_base2_def skip_sign_def skip_prefix_def py_isspace_def ord_def
        bin_or_underscore_def bin_value_def)
qed

lemma seed_in_range:
  assumes "single_shot counts"
  shows "\<exists>n. generate_quantum_seed wallet_address (Inr counts) = Inr n \<and> 0 \<le> n \<and> n \<le> 15"
proof -
  from assms obtain key where "counts = [(key, 1)]" "is_bits 4 key"
    by (auto simp: single_shot_def split: list.splits)
  then show ?thesis using int_base2_bits4 [of key] by (simp add: generate_quantum_seed_def)
qed

lemma calculate_rewards_returns:
  assumes "single_shot sc" "hundred_shots bc"
  shows "\<exists>r. calculate_rewards d a (Inr sc) (Inr bc) = Inr r"
proof -
  from seed_in_range [OF assms(1)] obtain n where "generate_quantum_seed a (Inr sc) = Inr n" by blast
  moreover from boost_in_range [OF assms(2)] obtain b where "quantum_boost_multiplier d n (Inr bc) = Inr b"
    by blast
  ultimately show ?thesis by (simp add: calculate_rewards_def split: prod.splits)
qed

lemma calculate_rewards_fields:
  assumes "calculate_rewards d a seed_run boost_run = Inr r"
  shows "(tier r, base_multiplier r) = classify_tier d"
    and "generate_quantum_seed a seed_run = Inr (quantum_seed r)"
    and "quantum_boost_multiplier d (quantum_seed r) boost_run = Inr (quantum_boost r)"
    and "final_multiplier r = fmul (base_multiplier r) (quantum_boost r)"
    and "holding_days r = d"
  using assms by (auto simp: calculate_rewards_def split: sum.splits prod.splits)


section \<open>The reward tiers\<close>

text \<open>
  C1. For every integer number of days, \<open>calculate_rewards\<close> assigns the tier and the base
  multiplier by the table read top-down: 365 days or more give Diamond and 2.0, 180 to 364
  days Gold and 1.5, 90 to 179 days Silver and 1.25, 0 to 89 days Bronze and 1.0. The call
  returns a result whenever both simulator runs answer in the expected form, and whatever
  result it returns carries the tier of the table.
\<close>

theorem calculate_rewards_tier_table:
  "(single_shot sc \<and> hundred_shots bc \<longrightarrow> (\<exists>r. calculate_rewards d a (Inr sc) (Inr bc) = Inr r))
   \<and> (\<forall>r. calculate_rewards d a seed_run boost_run = Inr r \<longrightarrow>
         (365 \<le> d \<longrightarrow> tier r = ''Diamond'' \<and> base_multiplier r = 2)
       \<and> (180 \<le> d \<and> d < 365 \<longrightarrow> tier r = ''Gold'' \<and> base_multiplier r = 3 / 2)
       \<and> (90 \<le> d \<and> d < 180 \<longrightarrow> tier r = ''Silver'' \<and> base_multiplier r = 5 / 4)
       \<and> (0 \<le> d \<and> d < 90 \<longrightarrow> tier r = ''Bronze'' \<and> base_multiplier r = 1))"
proof (intro conjI allI impI; (elim conjE)?)
  assume "single_shot sc" "hundred_shots bc"
  then show "\<exists>r. calculate_rewards d a (Inr sc) (Inr bc) = Inr r" by (rule calculate_rewards_returns)
next
  fix r assume r: "calculate_rewards d a seed_run boost_run = Inr r"
  note c = calculate_rewards_fields(1) [OF r]
  { assume "365 \<le> d"
    with c show "tier r = ''Diamond''" "base_multiplier r = 2" by (simp_all add: classify_tier_def) }
  { assume "180 \<le> d" "d < 365"
    with c show "tier r = ''Gold''" "base_multiplier r = 3 / 2" by (simp_all add: classify_tier_def) }
  { assume "90 \<le> d" "d < 180"
    with c show "tier r = ''Silver''" "base_multiplier r = 5 / 4" by (simp_all add: classify_tier_def) }
  { assume "0 \<le> d" "d < 90"
    with c show "tier r = ''Bronze''" "base_multiplier r = 1" by (simp_all add: classify_tier_def) }
qed

theorem calculate_rewards_tier_table_witness:
  "single_shot [(''0111'', 1)] \<and> hundred_shots [(''0'', 63), (''1'', 37)]
   \<and> (\<exists>r. calculate_rewards 400 ''GF6A'' (Inr [(''0111'', 1)]) (Inr [(''0'', 63), (''1'', 37)]) = Inr r
          \<and> tier r = ''Diamond'' \<and> base_multiplier r = 2)
   \<and> (\<exists>r. calculate_rewards 200 ''GF6A'' (Inr [(''0111'', 1)]) (Inr [(''0'', 63), (''1'', 37)]) = Inr r
          \<and> tier r = ''Gold'' \<and> base_multiplier r = 3 / 2)
   \<and> (\<exists>r. calculate_rewards 100 ''GF6A'' (Inr [(''0111'', 1)]) (Inr [(''0'', 63), (''1'', 37)]) = Inr r
          \<and> tier r = ''Silver'' \<and> base_multiplier r = 5 / 4)
   \<and> (\<exists>r. calculate_rewards 10 ''GF6A'' (Inr [(''0111'', 1)]) (Inr [(''0'', 63), (''1'', 37)]) = Inr r
          \<and> tier r = ''Bronze'' \<and> base_multiplier r = 1)"
proof -
  let ?sc = "[(''0111'', 1 :: int)]" and ?bc = "[(''0'', 63 :: int), (''1'', 37)]"
  have s: "single_shot ?sc" by (simp add: single_shot_def is_bits_def)
  have b: "hundred_shots ?bc" by (simp add: hundred_shots_def counts_get_def)
  note t = calculate_rewards_tier_table [of ?sc ?bc _ "''GF6A''" "Inr ?sc" "Inr ?bc"]
  from s b t [of 400] have 1: "\<exists>r. calculate_rewards 400 ''GF6A'' (Inr ?sc) (Inr ?bc) = Inr r
          \<and> tier r = ''Diamond'' \<and> base_multiplier r = 2" by auto
  from s b t [of 200] have 2: "\<exists>r. calculate_rewards 200 ''GF6A'' (Inr ?sc) (Inr ?bc) = Inr r
          \<and> tier r = ''Gold'' \<and> base_multiplier r = 3 / 2" by auto
  from s b t [of 100] have 3: "\<exists>r. calculate_rewards 100 ''GF6A'' (Inr ?sc) (Inr ?bc) = Inr r
          \<and> tier r = ''Silver'' \<and> base_multiplier r = 5 / 4" by auto
  from s b t [of 10] have 4: "\<exists>r. calculate_rewards 10 ''GF6A'' (Inr ?sc) (Inr ?bc) = Inr r
          \<and> tier r = ''Bronze'' \<and> base_multiplier r = 1" by auto
  from s b 1 2 3 4 show ?thesis by (intro conjI)
qed

text \<open>
  C8. A negative number of days falls through to the last branch: the tier is Bronze and
  the base multiplier 1.0, as for 0 days. The classification itself cannot fail: if
  \<open>calculate_rewards\<close> raises, the exception is that of the seed or of the boost.
\<close>

theorem negative_days_bronze:
  "d < 0 \<Longrightarrow>
     classify_tier d = (''Bronze'', 1) \<and> classify_tier d = classify_tier 0
   \<and> (\<forall>r. calculate_rewards d a seed_run boost_run = Inr r \<longrightarrow>
          tier r = ''Bronze'' \<and> base_multiplier r = 1)
   \<and> (\<forall>r r0. calculate_rewards d a seed_run boost_run = Inr r
                \<and> calculate_rewards 0 a seed_run0 boost_run0 = Inr r0 \<longrightarrow>
          tier r = tier r0 \<and> base_multiplier r = base_multiplier r0)
   \<and> (\<forall>e. calculate_rewards d a seed_run boost_run = Inl e \<longrightarrow>
          generate_quantum_seed a seed_run = Inl e
        \<or> (\<exists>n. quantum_boost_multiplier d n boost_run = Inl e))"
proof (intro conjI allI impI)
  assume d: "d < 0"
  show b: "classify_tier d = (''Bronze'', 1)" using d by (simp add: classify_tier_def)
  show z: "classify_tier d = classify_tier 0" using d by (simp add: classify_tier_def)
  { fix r assume "calculate_rewards d a seed_run boost_run = Inr r"
    from calculate_rewards_fields(1) [OF this] b
    show "tier r = ''Bronze''" "base_multiplier r = 1" by simp_all }
  { fix r r0
    assume "calculate_rewards d a seed_run boost_run = Inr r \<and>
            calculate_rewards 0 a seed_run0 boost_run0 = Inr r0"
    then have "calculate_rewards d a seed_run boost_run = Inr r"
      and "calculate_rewards 0 a seed_run0 boost_run0 = Inr r0" by simp_all
    then have "(tier r, base_multiplier r) = classify_tier d"
      "(tier r0, base_multiplier r0) = classify_tier 0"
      by (simp_all only: calculate_rewards_fields(1))
    with z show "tier r = tier r0" "base_multiplier r = base_multiplier r0"
      by (metis prod.inject)+ }
  { fix e assume "calculate_rewards d a seed_run boost_run = Inl e"
    then show "generate_quantum_seed a seed_run = Inl e
        \<or> (\<exists>n. quantum_boost_multiplier d n boost_run = Inl e)"
      by (auto simp: calculate_rewards_def split: sum.splits prod.splits) }
qed

theorem negative_days_bronze_witness:
  "(- 5 :: int) < 0
   \<and> classify_tier (- 5) = (''Bronze'', 1) \<and> classify_tier (- 5) = classify_tier 0
   \<and> (\<exists>r. calculate_rewards (- 5) ''GF6A'' (Inr [(''0111'', 1)]) (Inr [(''1'', 100)]) = Inr r
          \<and> tier r = ''Bronze'' \<and> base_multiplier r = 1)"
proof -
  have d: "(- 5 :: int) < 0" by simp
  have "single_shot [(''0111'', 1)]" "hundred_shots [(''1'', 100)]"
    by (simp_all add: single_shot_def is_bits_def hundred_shots_def counts_get_def)
  then obtain r where r: "calculate_rewards (- 5) ''GF6A'' (Inr [(''0111'', 1)]) (Inr [(''1'', 100)]) = Inr r"
    using calculate_rewards_returns by blast
  from negative_days_bronze [OF d, of "''GF6A''" "Inr [(''0111'', 1)]" "Inr [(''1'', 100)]"
      "Inr [(''0111'', 1)]" "Inr [(''1'', 100)]"] r d
  show ?thesis by blast
qed

section \<open>The quantum boost and the seed\<close>

text \<open>Two concrete runs, computed: 37 shots out of 100 give the boost 1.185 as a binary64
  number, and the key 0111 gives the seed 7.\<close>

lemma boost_37_shots:
  "quantum_boost_multiplier 400 7 (Inr [(''0'', 63), (''1'', 37)]) = Inr (2668382779217019 / 2251799813685248)"
  by (simp add: quantum_boost_multiplier_def counts_get_def int_truediv_def fadd_def fmul_def
      round_binary64_def ilog2_def pow2_def round_half_even_def Let_def compute_bitlen)

lemma seed_0111:
  "generate_quantum_seed ''GF6AF7pJZnKNeZvLQ8Jwx7j2uSWSNRZMgan3BCbHbVSr'' (Inr [(''0111'', 1)]) = Inr 7"
  by (simp add: generate_quantum_seed_def int_base2_def skip_sign_def skip_prefix_def py_isspace_def ord_def
        bin_or_underscore_def bin_value_def)

text \<open>
  C2. Whatever the holding days and the seed, when the 100-shot run reports between 0 and
  100 shots with outcome 1, \<open>quantum_boost_multiplier\<close> returns a float between 1.0 and
  1.5, both included.
\<close>

theorem quantum_boost_multiplier_range:
  "hundred_shots counts \<Longrightarrow>
   \<exists>b. quantum_boost_multiplier d s (Inr counts) = Inr b \<and> 1 \<le> b \<and> b \<le> 3 / 2"
  by (rule boost_in_range)

theorem quantum_boost_multiplier_range_witness:
  "hundred_shots [(''0'', 63), (''1'', 37)]
   \<and> (\<exists>b. quantum_boost_multiplier 400 7 (Inr [(''0'', 63), (''1'', 37)]) = Inr b \<and> 1 \<le> b \<and> b \<le> 3 / 2)"
proof -
  have h: "hundred_shots [(''0'', 63), (''1'', 37)]" by (simp add: hundred_shots_def counts_get_def)
  from h quantum_boost_multiplier_range [OF h, of 400 7] show ?thesis by simp
qed



section \<open>The final multiplier\<close>

text \<open>The whole result for 400 days, computed.\<close>

lemma rewards_400:
  "calculate_rewards 400 ''GF6A'' (Inr [(''0111'', 1)]) (Inr [(''0'', 63), (''1'', 37)]) =
     Inr \<lparr>tier = ''Diamond'', base_multiplier = 2,
       quantum_boost = 2668382779217019 / 2251799813685248,
       final_multiplier = 2668382779217019 / 1125899906842624,
       holding_days = 400, quantum_seed = 7\<rparr>"
  by (simp add: calculate_rewards_def classify_tier_def generate_quantum_seed_def int_base2_def skip_sign_def skip_prefix_def py_isspace_def ord_def
        bin_or_underscore_def bin_value_def quantum_boost_multiplier_def counts_get_def int_truediv_def fadd_def fmul_def
      round_binary64_def ilog2_def pow2_def round_half_even_def Let_def compute_bitlen)

text \<open>
  C3. In every result of \<open>calculate_rewards\<close> the final multiplier is the float product of
  the base multiplier and the quantum boost. For 400 days the result has the tier Diamond,
  the base multiplier 2.0 and, the boost run being a 100-shot answer, a final multiplier
  between 2.0 and 3.0; such a result exists whenever the seed run is a one-shot answer.
\<close>

theorem final_multiplier_product:
  "(\<forall>r. calculate_rewards d a seed_run boost_run = Inr r \<longrightarrow>
        final_multiplier r = fmul (base_multiplier r) (quantum_boost r))
   \<and> (hundred_shots bc \<longrightarrow>
        (\<forall>r. calculate_rewards 400 a seed_run (Inr bc) = Inr r \<longrightarrow>
           tier r = ''Diamond'' \<and> base_multiplier r = 2
         \<and> 2 \<le> final_multiplier r \<and> final_multiplier r \<le> 3))
   \<and> (single_shot sc \<and> hundred_shots bc \<longrightarrow>
        (\<exists>r. calculate_rewards 400 a (Inr sc) (Inr bc) = Inr r))"
proof (intro conjI allI impI)
  fix r assume "calculate_rewards d a seed_run boost_run = Inr r"
  then show "final_multiplier r = fmul (base_multiplier r) (quantum_boost r)"
    by (rule calculate_rewards_fields(4))
next
  assume "single_shot sc \<and> hundred_shots bc"
  then show "\<exists>r. calculate_rewards 400 a (Inr sc) (Inr bc) = Inr r"
    by (simp add: calculate_rewards_returns)
next
  fix r assume h: "hundred_shots bc" and r: "calculate_rewards 400 a seed_run (Inr bc) = Inr r"
  from calculate_rewards_fields(1) [OF r]
  show t: "tier r = ''Diamond''" and b: "base_multiplier r = 2" by (simp_all add: classify_tier_def)
  from boost_in_range [OF h, of 400 "quantum_seed r"] calculate_rewards_fields(3) [OF r]
  have q: "1 \<le> quantum_boost r" "quantum_boost r \<le> 3 / 2" by auto
  then have "2 \<le> 2 * quantum_boost r" "2 * quantum_boost r \<le> 3" by simp_all
  then have "2 \<le> round_binary64 (2 * quantum_boost r) \<and> round_binary64 (2 * quantum_boost r) \<le> 3"
    by (rule round_binary64_2_to_3)
  then show "2 \<le> final_multiplier r" "final_multiplier r \<le> 3"
    using calculate_rewards_fields(4) [OF r] b by (simp_all add: fmul_def)
qed

theorem final_multiplier_product_witness:
  "single_shot [(''0111'', 1)] \<and> hundred_shots [(''0'', 63), (''1'', 37)]
   \<and> (\<exists>r. calculate_rewards 400 ''GF6A'' (Inr [(''0111'', 1)]) (Inr [(''0'', 63), (''1'', 37)]) = Inr r
          \<and> final_multiplier r = fmul (base_multiplier r) (quantum_boost r)
          \<and> tier r = ''Diamond'' \<and> base_multiplier r = 2
          \<and> 2 \<le> final_multiplier r \<and> final_multiplier r \<le> 3)"
proof -
  let ?sc = "[(''0111'', 1 :: int)]" and ?bc = "[(''0'', 63 :: int), (''1'', 37)]"
  have s: "single_shot ?sc" by (simp add: single_shot_def is_bits_def)
  have b: "hundred_shots ?bc" by (simp add: hundred_shots_def counts_get_def)
  from s b final_multiplier_product [of 400 "''GF6A''" "Inr ?sc" "Inr ?bc" ?bc ?sc]
  show ?thesis by auto
qed

section \<open>The tracked wallets\<close>

lemma listing_count: "listing S xs \<Longrightarrow> count_list xs x = (if x \<in> S then 1 else 0)"
proof -
  have "distinct xs \<Longrightarrow> count_list xs x = (if x \<in> set xs then 1 else 0)"
    by (induction xs) auto
  then show "listing S xs \<Longrightarrow> count_list xs x = (if x \<in> S then 1 else 0)"
    by (simp add: listing_def)
qed


text \<open>The scenario of adding ABC twice and removing XYZ from the empty set: every listing
  of the result is the one-element list of ABC.\<close>

lemma spec_scenario_tracking:
  "listing (wallets_to_track (remove_wallet_to_track ''XYZ''
      (add_wallet_to_track ''ABC'' (add_wallet_to_track ''ABC'' \<lparr>wallets_to_track = {}, stdout = []\<rparr>)))) xs
   \<longleftrightarrow> xs = [''ABC'']"
proof -
  have "set xs = {''ABC''} \<and> distinct xs \<longleftrightarrow> xs = [''ABC'']"
  proof
    assume h: "set xs = {''ABC''} \<and> distinct xs"
    then have "distinct xs" by simp
    then have "card (set xs) = length xs" by (rule distinct_card)
    then have "length xs = 1" using h by simp
    then obtain x where "xs = [x]" by (cases xs) auto
    with h show "xs = [''ABC'']" by simp
  qed simp
  then show ?thesis by (simp add: listing_def add_wallet_to_track_def remove_wallet_to_track_def)
qed

text \<open>
  C5. The tracked wallets behave as a mathematical set. Adding an address inserts it when
  it is absent and changes nothing when it is present, so after adding it twice every
  listing of the set holds it exactly once. Removing an address deletes it when it is
  present and changes nothing when it is absent; either way the set, and every listing of
  it, no longer holds the address. Both operations are total: neither raises.
\<close>

theorem tracked_wallets_set_semantics:
  "(x \<in> wallets_to_track s \<longrightarrow>
      wallets_to_track (add_wallet_to_track x s) = wallets_to_track s)
   \<and> (x \<notin> wallets_to_track s \<longrightarrow>
      wallets_to_track (add_wallet_to_track x s) = insert x (wallets_to_track s))
   \<and> wallets_to_track (add_wallet_to_track x (add_wallet_to_track x s)) =
      wallets_to_track (add_wallet_to_track x s)
   \<and> (\<forall>xs. listing (wallets_to_track (add_wallet_to_track x (add_wallet_to_track x s))) xs \<longrightarrow>
          count_list xs x = 1)
   \<and> (y \<in> wallets_to_track s \<longrightarrow>
      wallets_to_track (remove_wallet_to_track y s) = wallets_to_track s - {y})
   \<and> (y \<notin> wallets_to_track s \<longrightarrow>
      wallets_to_track (remove_wallet_to_track y s) = wallets_to_track s)
   \<and> y \<notin> wallets_to_track (remove_wallet_to_track y s)
   \<and> (\<forall>xs. listing (wallets_to_track (remove_wallet_to_track y s)) xs \<longrightarrow> y \<notin> set xs)"
proof (intro conjI allI impI)
  fix xs assume "listing (wallets_to_track (add_wallet_to_track x (add_wallet_to_track x s))) xs"
  from listing_count [OF this, of x] show "count_list xs x = 1"
    by (simp add: add_wallet_to_track_def)
next
  fix xs assume "listing (wallets_to_track (remove_wallet_to_track y s)) xs"
  then show "y \<notin> set xs" by (auto simp: listing_def remove_wallet_to_track_def)
qed (auto simp: add_wallet_to_track_def remove_wallet_to_track_def)

theorem tracked_wallets_set_semantics_witness:
  "''ABC'' \<notin> wallets_to_track \<lparr>wallets_to_track = {}, stdout = []\<rparr>
   \<and> ''XYZ'' \<notin> wallets_to_track \<lparr>wallets_to_track = {}, stdout = []\<rparr>
   \<and> ''ABC'' \<in> wallets_to_track \<lparr>wallets_to_track = {''ABC'', ''XYZ''}, stdout = []\<rparr>
   \<and> ''XYZ'' \<in> wallets_to_track \<lparr>wallets_to_track = {''ABC'', ''XYZ''}, stdout = []\<rparr>
   \<and> listing (wallets_to_track (add_wallet_to_track ''ABC''
          (add_wallet_to_track ''ABC'' \<lparr>wallets_to_track = {}, stdout = []\<rparr>))) [''ABC'']
   \<and> count_list [''ABC''] ''ABC'' = 1
   \<and> wallets_to_track (add_wallet_to_track ''ABC'' \<lparr>wallets_to_track = {}, stdout = []\<rparr>) = {''ABC''}
   \<and> wallets_to_track (remove_wallet_to_track ''XYZ'' \<lparr>wallets_to_track = {}, stdout = []\<rparr>) = {}
   \<and> wallets_to_track (add_wallet_to_track ''ABC'' \<lparr>wallets_to_track = {''ABC'', ''XYZ''}, stdout = []\<rparr>)
        = {''ABC'', ''XYZ''}
   \<and> wallets_to_track (remove_wallet_to_track ''XYZ'' \<lparr>wallets_to_track = {''ABC'', ''XYZ''}, stdout = []\<rparr>)
        = {''ABC''}
   \<and> listing (wallets_to_track (remove_wallet_to_track ''XYZ''
          \<lparr>wallets_to_track = {''ABC'', ''XYZ''}, stdout = []\<rparr>)) [''ABC'']
   \<and> ''XYZ'' \<notin> set [''ABC'']"
proof -
  let ?s0 = "\<lparr>wallets_to_track = {}, stdout = []\<rparr>"
  let ?s1 = "\<lparr>wallets_to_track = {''ABC'', ''XYZ''}, stdout = []\<rparr>"
  note t0 = tracked_wallets_set_semantics [of "''ABC''" ?s0 "''XYZ''"]
  note t1 = tracked_wallets_set_semantics [of "''ABC''" ?s1 "''XYZ''"]
  have a: "''ABC'' \<notin> wallets_to_track ?s0" "''XYZ'' \<notin> wallets_to_track ?s0"
    "''ABC'' \<in> wallets_to_track ?s1" "''XYZ'' \<in> wallets_to_track ?s1"
    by simp_all
  have l0: "listing (wallets_to_track (add_wallet_to_track ''ABC'' (add_wallet_to_track ''ABC'' ?s0))) [''ABC'']"
    by (simp add: listing_def add_wallet_to_track_def)
  with t0 have c: "count_list [''ABC''] ''ABC'' = 1" by blast
  from a t0 have e0: "wallets_to_track (add_wallet_to_track ''ABC'' ?s0) = {''ABC''}"
    "wallets_to_track (remove_wallet_to_track ''XYZ'' ?s0) = {}"
    by simp_all
  from a t1 have e1: "wallets_to_track (add_wallet_to_track ''ABC'' ?s1) = {''ABC'', ''XYZ''}"
    "wallets_to_track (remove_wallet_to_track ''XYZ'' ?s1) = {''ABC''}"
    by auto
  have l1: "listing (wallets_to_track (remove_wallet_to_track ''XYZ'' ?s1)) [''ABC'']"
    unfolding e1 by (simp add: listing_def)
  with t1 have n: "''XYZ'' \<notin> set [''ABC'']" by blast
  from a l0 c e0 e1 l1 n show ?thesis by (intro conjI)
qed


section \<open>The command loop\<close>


lemma ord_less_256: "ord c < 256"
  unfolding ord_def by (metis of_char_mod_256 mod_less_divisor zero_less_numeral)













text \<open>One round on a line typed with capitals and spaces, computed.\<close>

lemma main_step_add_run:
  "main_step '' ADD  GF6AF7pJ '' \<lparr>wallets_to_track = {}, stdout = []\<rparr> =
     (Continue, \<lparr>wallets_to_track = {''gf6af7pj''}, stdout = [NowTracking ''gf6af7pj'']\<rparr>)"
  by (simp add: main_step_def Let_def add_wallet_to_track_def startswith_def strip_def lower_def lower_char_def
      py_isspace_def py_isupper_def ord_def char_of_eq_iff)




section \<open>Repeated invocations of the seed generator\<close>

text \<open>The runs that the circuit of the deployer's address can give: its second and third
  characters have even code points, so two qubits are in superposition and four outcomes
  are possible.\<close>

lemma list_update_Cons_numeral: "(x # xs)[numeral v := y] = x # xs[pred_numeral v := y]"
  by (simp add: numeral_eq_Suc)

lemmas seed_eval = seed_runs_def run_circuit_def seed_circuit_def key_of_def ord_def
  list_update_Cons_numeral


lemmas int_base2_eval = generate_quantum_seed_def int_base2_def skip_sign_def skip_prefix_def
  py_isspace_def ord_def bin_or_underscore_def bin_value_def


lemma hadamard_two_seeds:
  assumes "\<not> no_hadamard a"
  shows "\<exists>r1 \<in> set (seed_runs a). \<exists>r2 \<in> set (seed_runs a).
           generate_quantum_seed a (Inr r1) \<noteq> generate_quantum_seed a (Inr r2)"
proof -
  consider "a = []" | c1 where "a = [c1]" | c1 c2 where "a = [c1, c2]"
    | c1 c2 c3 where "a = [c1, c2, c3]" | c1 c2 c3 c4 r where "a = c1 # c2 # c3 # c4 # r"
    by (metis list.exhaust)
  then show ?thesis
  proof cases
    case 1
    then show ?thesis using assms by (simp add: no_hadamard_def)
  next
    case 2
    then show ?thesis using assms
      by (simp add: seed_eval no_hadamard_def) (simp add: int_base2_eval)
  next
    case 3
    then show ?thesis using assms
      by (cases "of_char c1 mod 2 = (0::nat)"; cases "of_char c2 mod 2 = (0::nat)";
          simp add: seed_eval no_hadamard_def; simp add: int_base2_eval)
  next
    case 4
    then show ?thesis using assms
      by (cases "of_char c1 mod 2 = (0::nat)"; cases "of_char c2 mod 2 = (0::nat)";
          cases "of_char c3 mod 2 = (0::nat)";
          simp add: seed_eval no_hadamard_def; simp add: int_base2_eval)
  next
    case 5
    then show ?thesis using assms
      by (cases "of_char c1 mod 2 = (0::nat)"; cases "of_char c2 mod 2 = (0::nat)";
          cases "of_char c3 mod 2 = (0::nat)"; cases "of_char c4 mod 2 = (0::nat)";
          simp add: seed_eval no_hadamard_def; simp add: int_base2_eval)
  qed
qed




section \<open>The analysis dictionary\<close>






lemma empty_holdings_no_confidence:
  "\<exists>d. analyze_holding_pattern (WalletInfo a []) message_run seed_run = Inr d
        \<and> dict_get d ''quantum_confidence'' = Inl KeyError"
  by (simp add: analyze_holding_pattern_def dict_get_def)



section \<open>Failures during a batch run\<close>



lemma simulator_failure_ends_batch:
  assumes "rpc w wallet = Inr (WalletInfo a holdings)" "holdings \<noteq> []"
    and "llm w wallet = Inr content" "analysis_sim w wallet = Inl msg"
  shows "check_wallets w (wallet # ws) = ([CheckingWallet wallet], Some (ExternalError msg))"
  using assms
  by (simp add: check_wallet_def get_token_holding_duration_def analyze_holding_pattern_def
      generate_quantum_seed_def)

text \<open>The run over the one wallet for which every service answers, computed.\<close>

lemma all_services_up:
  "check_all_wallets outage [''w3''] =
     ([RunningCheck, CheckingWallet ''w3'', AIAnalysis (Str ''loyal holder''),
       AnalysisConfidence (Float (3602879701896397 / 72057594037927936)),
       HoldingLines sample_holding,
       RewardLines \<lparr>tier = ''Diamond'', base_multiplier = 2,
         quantum_boost = 2668382779217019 / 2251799813685248,
         final_multiplier = 2668382779217019 / 1125899906842624,
         holding_days = 400, quantum_seed = 7\<rparr>],
      None)"
proof -
  have c: "generate_quantum_seed ''w3'' (Inr [(''0101'', 1)]) = Inr 5"
    by (simp add: generate_quantum_seed_def int_base2_def skip_sign_def skip_prefix_def
        py_isspace_def ord_def bin_or_underscore_def bin_value_def)
  have q: "int_truediv 5 100 = Inr (3602879701896397 / 72057594037927936)"
    by (simp add: int_truediv_def round_binary64_def ilog2_def pow2_def round_half_even_def
        Let_def compute_bitlen)
  have r: "calculate_rewards 400 ''w3'' (Inr [(''0111'', 1)]) (Inr [(''0'', 63), (''1'', 37)]) =
     Inr \<lparr>tier = ''Diamond'', base_multiplier = 2,
       quantum_boost = 2668382779217019 / 2251799813685248,
       final_multiplier = 2668382779217019 / 1125899906842624,
       holding_days = 400, quantum_seed = 7\<rparr>"
    by (simp add: calculate_rewards_def classify_tier_def seed_0111 [simplified] boost_37_shots
        generate_quantum_seed_def int_base2_def skip_sign_def skip_prefix_def
        py_isspace_def ord_def bin_or_underscore_def bin_value_def fmul_def
        round_binary64_def ilog2_def pow2_def round_half_even_def Let_def compute_bitlen)
  show ?thesis
    by (simp add: check_all_wallets_def check_wallet_def outage_def get_token_holding_duration_def
        analyze_holding_pattern_def c q dict_get_def sample_holding_def r)
qed


end
